theory Spec2Isabelle
  imports Main "HOL-Library.Word" "HOL-Library.Multiset" "HOL-Library.Sublist"
begin

section \<open>gocron: an in-process job scheduler (gocron.go)\<close>

text \<open>
  A shallow embedding of \<^verbatim>\<open>gocron.go\<close>. Go methods with a pointer receiver become
  functions that take the receiver and return it updated; a panic is the \<open>Inl\<close> branch of
  a sum. The package reads the wall clock and two locations (\<^verbatim>\<open>time.Local\<close> and the package
  variable \<^verbatim>\<open>loc\<close>); the model passes them in as a \<open>clock\<close>. One operation reads one
  instant: the successive \<^verbatim>\<open>time.Now()\<close> calls inside a single method are taken to return the
  same value.
\<close>

subsection \<open>The part of package time the scheduler uses\<close>

text \<open>
  A location is modelled as a name with a fixed offset east of UTC, in seconds (no
  daylight-saving transitions). Equality of two locations stands for equality of the
  \<^verbatim>\<open>*time.Location\<close> pointers.
\<close>

record location =
  zname :: string
  zoffset :: int

text \<open>
  A \<^verbatim>\<open>time.Time\<close>: the instant in nanoseconds since the Unix epoch, whether the value carries
  a monotonic clock reading (only \<^verbatim>\<open>time.Now()\<close> sets one), and its location. Go's \<^verbatim>\<open>==\<close> on
  \<^verbatim>\<open>time.Time\<close> compares all three, and so does equality of this record. Instants are
  unbounded integers: the range of \<^verbatim>\<open>time.Time\<close> is far wider than what a 64-bit duration can
  add to a clock reading.
\<close>

record time =
  nsec :: int
  hasMonotonic :: bool
  tloc :: location

record clock =
  now :: int
  Local :: location
  loc :: location

text \<open>\<^verbatim>\<open>time.Duration\<close> is an \<^verbatim>\<open>int64\<close> count of nanoseconds.\<close>

type_synonym duration = "64 word"

definition Second :: duration where
  "Second = 1000000000"

definition Now :: "clock \<Rightarrow> time" where
  "Now c = \<lparr>nsec = now c, hasMonotonic = True, tloc = Local c\<rparr>"

text \<open>\<^verbatim>\<open>time.Unix(0, 0)\<close>, the value a new job's \<^verbatim>\<open>lastRun\<close> and \<^verbatim>\<open>nextRun\<close> start with.\<close>

definition Unix0 :: "clock \<Rightarrow> time" where
  "Unix0 c = \<lparr>nsec = 0, hasMonotonic = False, tloc = Local c\<rparr>"

definition After :: "time \<Rightarrow> time \<Rightarrow> bool" where
  "After t u = (nsec u < nsec t)"

text \<open>\<^verbatim>\<open>t.Add(d)\<close>: the duration is read as a signed 64-bit number of nanoseconds.\<close>

definition Add :: "time \<Rightarrow> duration \<Rightarrow> time" where
  "Add t d = t\<lparr>nsec := nsec t + sint d\<rparr>"

text \<open>
  A civil date (year, month, day) is represented by its day number, the days since
  1970-01-01. \<open>Day t\<close> stands for the triple \<^verbatim>\<open>t.Year(), t.Month(), t.Day()\<close> read in the
  location of \<open>t\<close>. \<^verbatim>\<open>time.Date\<close> normalises a day of the month that is out of range, so
  \<^verbatim>\<open>time.Date(y, m, d-k, hour, min, 0, 0, l)\<close> is \<open>Date (day - k) hour min l\<close>.
\<close>

definition Day :: "time \<Rightarrow> int" where
  "Day t = (nsec t + zoffset (tloc t) * 1000000000) div (86400 * 1000000000)"

definition Date :: "int \<Rightarrow> int \<Rightarrow> int \<Rightarrow> location \<Rightarrow> time" where
  "Date d hour minute l =
     \<lparr>nsec = (d * 86400 + hour * 3600 + minute * 60 - zoffset l) * 1000000000,
      hasMonotonic = False, tloc = l\<rparr>"

text \<open>\<^verbatim>\<open>t.Weekday()\<close>, with Sunday = 0; 1970-01-01 was a Thursday.\<close>

definition Weekday :: "time \<Rightarrow> int" where
  "Weekday t = (Day t + 4) mod 7"

subsection \<open>Values, errors\<close>

text \<open>
  A value handed over as \<^verbatim>\<open>interface{}\<close>. Of a function, the scheduler uses the name the
  runtime reports for it and the number of its declared parameters
  (\<^verbatim>\<open>reflect.Type.NumIn\<close>); \<open>NotFunc\<close> is a value of a kind that is neither a function nor
  a pointer (an integer, say).
\<close>

datatype val = Func (fname: string) (NumIn: nat) | NotFunc

datatype error =
    TimeFormatError
  | SyntaxError
  | RangeError
  | ParamNumberError
  | OnlyFunctionPanic
  | ReflectPanic
  | IntervalPanic
  | SliceBoundsPanic

subsection \<open>Job\<close>

definition UnitSeconds :: string where "UnitSeconds = ''seconds''"
definition UnitMinutes :: string where "UnitMinutes = ''minutes''"
definition UnitHours :: string where "UnitHours = ''hours''"
definition UnitDays :: string where "UnitDays = ''days''"
definition UnitWeeks :: string where "UnitWeeks = ''weeks''"

record job =
  interval :: "64 word"
  jobFunc :: string
  unit :: string
  atTime :: string
  lastRun :: time
  nextRun :: time
  period :: duration
  startDay :: int
  funcs :: "string \<rightharpoonup> val"
  fparams :: "string \<rightharpoonup> val list"

definition NewJob :: "clock \<Rightarrow> 64 word \<Rightarrow> job" where
  "NewJob c n =
     \<lparr>interval = n, jobFunc = '''', unit = '''', atTime = '''',
      lastRun = Unix0 c, nextRun = Unix0 c, period = 0, startDay = 0,
      funcs = Map.empty, fparams = Map.empty\<rparr>"

definition shouldRun :: "clock \<Rightarrow> job \<Rightarrow> bool" where
  "shouldRun c j = After (Now c) (nextRun j)"

text \<open>The weekday offset both \<^verbatim>\<open>At\<close> and \<^verbatim>\<open>scheduleNextRun\<close> compute:
  \<^verbatim>\<open>i := a - b; if i < 0 { i = 7 + i }\<close>.\<close>

definition weekday_back :: "int \<Rightarrow> int \<Rightarrow> int" where
  "weekday_back a b = (let i = a - b in if i < 0 then 7 + i else i)"

definition scheduleNextRun :: "clock \<Rightarrow> job \<Rightarrow> job" where
  "scheduleNextRun c j =
     (let j1 =
        (if lastRun j = Unix0 c then
           (if unit j = UnitWeeks then
              j\<lparr>lastRun := Date (Day (Now c) - weekday_back (Weekday (Now c)) (startDay j)) 0 0 (loc c)\<rparr>
            else j\<lparr>lastRun := Now c\<rparr>)
         else j)
      in
        if period j1 \<noteq> 0 then j1\<lparr>nextRun := Add (lastRun j1) (period j1 * Second)\<rparr>
        else
          (let j2 =
             (if unit j1 = UnitMinutes then j1\<lparr>period := interval j1 * 60\<rparr>
              else if unit j1 = UnitHours then j1\<lparr>period := interval j1 * 60 * 60\<rparr>
              else if unit j1 = UnitDays then j1\<lparr>period := interval j1 * 60 * 60 * 24\<rparr>
              else if unit j1 = UnitWeeks then j1\<lparr>period := interval j1 * 60 * 60 * 24 * 7\<rparr>
              else if unit j1 = UnitSeconds then j1\<lparr>period := interval j1\<rparr>
              else j1)
           in j2\<lparr>nextRun := Add (lastRun j2) (period j2 * Second)\<rparr>))"

text \<open>The value the \<^verbatim>\<open>switch\<close> of \<^verbatim>\<open>scheduleNextRun\<close> leaves in \<^verbatim>\<open>period\<close> when it
  starts from 0, by unit (in the order of its cases) and interval; the products are those of
  \<^verbatim>\<open>uint64\<close>, which wrap.\<close>

definition unit_period :: "string \<Rightarrow> 64 word \<Rightarrow> duration" where
  "unit_period u n =
     (if u = UnitMinutes then n * 60
      else if u = UnitHours then n * 60 * 60
      else if u = UnitDays then n * 60 * 60 * 24
      else if u = UnitWeeks then n * 60 * 60 * 24 * 7
      else if u = UnitSeconds then n
      else 0)"

text \<open>\<^verbatim>\<open>j.fparams[j.jobFunc]\<close>: a key that is not in the map gives the nil slice.\<close>

definition params_of :: "job \<Rightarrow> val list" where
  "params_of j = (case fparams j (jobFunc j) of None \<Rightarrow> [] | Some ps \<Rightarrow> ps)"

text \<open>
  \<^verbatim>\<open>run\<close> either panics (the job has no function registered under \<^verbatim>\<open>jobFunc\<close>), or returns
  its error value together with the job. The call of the function itself is started
  as a goroutine and not waited for; it is not part of the model. The first result of the
  Go function is never assigned and is left out.
\<close>

definition run :: "clock \<Rightarrow> job \<Rightarrow> error + (error option \<times> job)" where
  "run c j =
     (case funcs j (jobFunc j) of
        None \<Rightarrow> Inl ReflectPanic
      | Some NotFunc \<Rightarrow> Inl ReflectPanic
      | Some (Func n k) \<Rightarrow>
          (let params = params_of j in
             if length params \<noteq> k then Inr (Some ParamNumberError, j)
             else Inr (None, scheduleNextRun c (j\<lparr>lastRun := Now c\<rparr>))))"


definition getFunctionName :: "val \<Rightarrow> error + string" where
  "getFunctionName v = (case v of Func n k \<Rightarrow> Inr n | NotFunc \<Rightarrow> Inl ReflectPanic)"

definition Do :: "clock \<Rightarrow> val \<Rightarrow> val list \<Rightarrow> job \<Rightarrow> error + job" where
  "Do c jobFun params j =
     (case jobFun of
        NotFunc \<Rightarrow> Inl OnlyFunctionPanic
      | Func n k \<Rightarrow>
          Inr (scheduleNextRun c
                 (j\<lparr>funcs := (funcs j)(n \<mapsto> jobFun),
                    fparams := (fparams j)(n \<mapsto> params),
                    jobFunc := n\<rparr>)))"

subsection \<open>Parsing the clock time\<close>

text \<open>\<^verbatim>\<open>strings.Split(t, ":")\<close>: \<open>cur\<close> holds the current piece, reversed.\<close>

fun Split_colon :: "string \<Rightarrow> string \<Rightarrow> string list" where
  "Split_colon cur [] = [rev cur]"
| "Split_colon cur (x # xs) =
     (if x = CHR '':'' then rev cur # Split_colon [] xs else Split_colon (x # cur) xs)"

definition is_digit :: "char \<Rightarrow> bool" where
  "is_digit ch = (48 \<le> (of_char ch :: nat) \<and> (of_char ch :: nat) \<le> 57)"

fun digits_value :: "int \<Rightarrow> string \<Rightarrow> int" where
  "digits_value acc [] = acc"
| "digits_value acc (ch # cs) = digits_value (acc * 10 + (int (of_char ch) - 48)) cs"

text \<open>\<^verbatim>\<open>strconv.Atoi\<close>: an optional sign, then one or more decimal digits, the value within
  the range of a 64-bit \<^verbatim>\<open>int\<close>.\<close>

definition Atoi :: "string \<Rightarrow> error + int" where
  "Atoi s =
     (let neg = (case s of [] \<Rightarrow> False | ch # r \<Rightarrow> ch = CHR ''-'');
          ds = (case s of [] \<Rightarrow> [] | ch # r \<Rightarrow> if ch = CHR ''-'' \<or> ch = CHR ''+'' then r else s)
      in
        if ds = [] \<or> \<not> list_all is_digit ds then Inl SyntaxError
        else
          (let n = (if neg then - digits_value 0 ds else digits_value 0 ds) in
             if n < - (2 ^ 63) \<or> 2 ^ 63 \<le> n then Inl RangeError else Inr n))"

definition formatTime :: "string \<Rightarrow> error + (int \<times> int)" where
  "formatTime t =
     (let ts = Split_colon [] t in
        if length ts \<noteq> 2 then Inl TimeFormatError
        else
          (case Atoi (ts ! 0) of
             Inl e \<Rightarrow> Inl e
           | Inr hour \<Rightarrow>
               (case Atoi (ts ! 1) of
                  Inl e \<Rightarrow> Inl e
                | Inr minute \<Rightarrow>
                    if hour < 0 \<or> hour > 23 \<or> minute < 0 \<or> minute > 59 then Inl TimeFormatError
                    else Inr (hour, minute))))"

definition At :: "clock \<Rightarrow> string \<Rightarrow> job \<Rightarrow> error + job" where
  "At c t j =
     (case formatTime t of
        Inl e \<Rightarrow> Inl e
      | Inr (hour, minute) \<Rightarrow>
          (let mock = Date (Day (Now c)) hour minute (loc c) in
             if unit j = UnitDays then
               (if After (Now c) mock then Inr (j\<lparr>lastRun := mock\<rparr>)
                else Inr (j\<lparr>lastRun := Date (Day (Now c) - 1) hour minute (loc c)\<rparr>))
             else if unit j = UnitWeeks then
               (if startDay j \<noteq> Weekday (Now c)
                   \<or> (After (Now c) mock \<and> startDay j = Weekday (Now c)) then
                  Inr (j\<lparr>lastRun :=
                          Date (Day (Now c) - weekday_back (Weekday mock) (startDay j))
                            hour minute (loc c)\<rparr>)
                else Inr (j\<lparr>lastRun := Date (Day (Now c) - 7) hour minute (loc c)\<rparr>))
             else Inr j))"

subsection \<open>Unit setters\<close>

definition Seconds :: "job \<Rightarrow> job" where "Seconds j = j\<lparr>unit := UnitSeconds\<rparr>"
definition Minutes :: "job \<Rightarrow> job" where "Minutes j = j\<lparr>unit := UnitMinutes\<rparr>"
definition Hours :: "job \<Rightarrow> job" where "Hours j = j\<lparr>unit := UnitHours\<rparr>"
definition Days :: "job \<Rightarrow> job" where "Days j = j\<lparr>unit := UnitDays\<rparr>"
definition Weeks :: "job \<Rightarrow> job" where "Weeks j = j\<lparr>unit := UnitWeeks\<rparr>"

text \<open>The singular setters panic unless the interval is 1.\<close>

definition singular :: "(job \<Rightarrow> job) \<Rightarrow> job \<Rightarrow> error + job" where
  "singular f j = (if interval j \<noteq> 1 then Inl IntervalPanic else Inr (f j))"

definition Second_unit :: "job \<Rightarrow> error + job" where "Second_unit = singular Seconds"
definition Minute :: "job \<Rightarrow> error + job" where "Minute = singular Minutes"
definition Hour :: "job \<Rightarrow> error + job" where "Hour = singular Hours"
definition Day_unit :: "job \<Rightarrow> error + job" where "Day_unit = singular Days"

definition on_weekday :: "int \<Rightarrow> job \<Rightarrow> error + job" where
  "on_weekday d = singular (\<lambda>j. Weeks (j\<lparr>startDay := d\<rparr>))"

definition Sunday :: "job \<Rightarrow> error + job" where "Sunday = on_weekday 0"
definition Monday :: "job \<Rightarrow> error + job" where "Monday = on_weekday 1"
definition Tuesday :: "job \<Rightarrow> error + job" where "Tuesday = on_weekday 2"
definition Wednesday :: "job \<Rightarrow> error + job" where "Wednesday = on_weekday 3"
definition Thursday :: "job \<Rightarrow> error + job" where "Thursday = on_weekday 4"
definition Friday :: "job \<Rightarrow> error + job" where "Friday = on_weekday 5"
definition Saturday :: "job \<Rightarrow> error + job" where "Saturday = on_weekday 6"

subsection \<open>Scheduler\<close>

record scheduler =
  jobs :: "job list"

definition NewScheduler :: scheduler where
  "NewScheduler = \<lparr>jobs = []\<rparr>"

definition Every :: "clock \<Rightarrow> 64 word \<Rightarrow> scheduler \<Rightarrow> job \<times> scheduler" where
  "Every c n s = (let j = NewJob c n in (j, s\<lparr>jobs := jobs s @ [j]\<rparr>))"

definition Clear :: "scheduler \<Rightarrow> scheduler" where
  "Clear s = s\<lparr>jobs := []\<rparr>"

text \<open>\<^verbatim>\<open>Less(i, k)\<close> of the \<^verbatim>\<open>sort.Interface\<close>, on the elements at the two indices.\<close>

definition Less :: "job \<Rightarrow> job \<Rightarrow> bool" where
  "Less a b = After (nextRun b) (nextRun a)"

text \<open>
  What \<^verbatim>\<open>sort.Sort\<close> guarantees of its result \<open>ys\<close> on the input \<open>xs\<close>: the same elements, and
  no element less than one before it. The order of elements that compare equal is not
  determined, so the sorting function is a parameter of \<open>getRunnableJobs\<close>.
\<close>

definition sorts :: "job list \<Rightarrow> job list \<Rightarrow> bool" where
  "sorts xs ys = (mset ys = mset xs \<and> sorted_wrt (\<lambda>a b. \<not> Less b a) ys)"

text \<open>The loop of \<^verbatim>\<open>getRunnableJobs\<close>: append while the job should run, break at the first
  that should not.\<close>

fun runnable_loop :: "clock \<Rightarrow> job list \<Rightarrow> job list \<Rightarrow> job list" where
  "runnable_loop c runnableJobs [] = runnableJobs"
| "runnable_loop c runnableJobs (j # js) =
     (if shouldRun c j then runnable_loop c (runnableJobs @ [j]) js else runnableJobs)"

definition getRunnableJobs ::
  "(job list \<Rightarrow> job list) \<Rightarrow> clock \<Rightarrow> scheduler \<Rightarrow> job list \<times> scheduler" where
  "getRunnableJobs sort_Sort c s =
     (let s1 = s\<lparr>jobs := sort_Sort (jobs s)\<rparr> in (runnable_loop c [] (jobs s1), s1))"

text \<open>
  The loop of \<^verbatim>\<open>Remove\<close>, \<^verbatim>\<open>for i, job = range s.jobs\<close>: \<open>k\<close> is the index of the next
  element, \<open>i\<close> the value the variable \<^verbatim>\<open>i\<close> holds. Each iteration assigns the index to
  \<^verbatim>\<open>i\<close> before the test, and the loop leaves \<^verbatim>\<open>i\<close> as it is when the range is exhausted.
\<close>

fun Remove_loop :: "string \<Rightarrow> job list \<Rightarrow> nat \<Rightarrow> nat \<Rightarrow> nat" where
  "Remove_loop name [] k i = i"
| "Remove_loop name (job # rest) k i =
     (if jobFunc job = name then k else Remove_loop name rest (k + 1) k)"

text \<open>
  \<^verbatim>\<open>getFunctionName(j)\<close> is evaluated inside the loop, so not at all on an empty
  collection. The slice expression \<^verbatim>\<open>s.jobs[i+1:]\<close> panics when \<^verbatim>\<open>i+1\<close> exceeds the length.
\<close>

definition Remove :: "val \<Rightarrow> scheduler \<Rightarrow> error + scheduler" where
  "Remove v s =
     (case (if jobs s = [] then Inr 0
            else (case getFunctionName v of
                    Inl e \<Rightarrow> Inl e
                  | Inr name \<Rightarrow> Inr (Remove_loop name (jobs s) 0 0))) of
        Inl e \<Rightarrow> Inl e
      | Inr i \<Rightarrow>
          if length (jobs s) < i + 1 then Inl SliceBoundsPanic
          else Inr (s\<lparr>jobs := take i (jobs s) @ drop (i + 1) (jobs s)\<rparr>))"

subsection \<open>Example inputs\<close>

text \<open>A location at UTC, standing for \<^verbatim>\<open>time.Local\<close>, and the clock reading at a day number,
  hour and minute there. Day 20000 is Friday 2024-10-04.\<close>

definition zone0 :: location where
  "zone0 = \<lparr>zname = ''Local'', zoffset = 0\<rparr>"

definition clock_at :: "int \<Rightarrow> int \<Rightarrow> int \<Rightarrow> clock" where
  "clock_at d h m =
     \<lparr>now = (d * 86400 + h * 3600 + m * 60) * 1000000000, Local = zone0, loc = zone0\<rparr>"

text \<open>\<^verbatim>\<open>Every(5).Minutes()\<close> and \<^verbatim>\<open>Every(1).Days()\<close>, not yet armed.\<close>

definition every_5_minutes :: job where
  "every_5_minutes = Minutes (NewJob (clock_at 20000 9 0) 5)"

definition every_day :: job where
  "every_day = Days (NewJob (clock_at 20000 9 0) 1)"

text \<open>\<^verbatim>\<open>Every(1).Seconds().Do(f)\<close> for a function \<^verbatim>\<open>f\<close> of name \<open>n\<close> with \<open>k\<close> parameters,
  bound to no arguments.\<close>

definition job_named :: "string \<Rightarrow> nat \<Rightarrow> job" where
  "job_named n k =
     scheduleNextRun (clock_at 20000 9 0)
       ((Seconds (NewJob (clock_at 20000 9 0) 1))
          \<lparr>funcs := [n \<mapsto> Func n k], fparams := [n \<mapsto> []], jobFunc := n\<rparr>)"

text \<open>\<^verbatim>\<open>Every(1).Second().Do(f)\<close>, \<^verbatim>\<open>Every(1).Minute().Do(f)\<close> and so on, by the unit setter,
  for a function of name \<open>n\<close> without parameters, armed at 09:00 of day 20000.\<close>

definition job_every :: "(job \<Rightarrow> job) \<Rightarrow> string \<Rightarrow> job" where
  "job_every setter n =
     scheduleNextRun (clock_at 20000 9 0)
       ((setter (NewJob (clock_at 20000 9 0) 1))
          \<lparr>funcs := [n \<mapsto> Func n 0], fparams := [n \<mapsto> []], jobFunc := n\<rparr>)"

text \<open>One sorting function within the contract of \<^verbatim>\<open>sort.Sort\<close>: insertion sort by the instant
  of \<^verbatim>\<open>nextRun\<close>.\<close>

definition by_nextRun :: "job list \<Rightarrow> job list" where
  "by_nextRun = sort_key (\<lambda>j. nsec (nextRun j))"

text \<open>\<^verbatim>\<open>Every(1).Monday()\<close>, not yet armed.\<close>

definition every_monday :: job where
  "every_monday = Weeks ((NewJob (clock_at 20000 9 0) 1)\<lparr>startDay := 1\<rparr>)"

section \<open>Properties\<close>

subsection \<open>Basic facts\<close>

lemmas Unit_defs = UnitSeconds_def UnitMinutes_def UnitHours_def UnitDays_def UnitWeeks_def

lemma job_named_Do:
  "Do (clock_at 20000 9 0) (Func n k) [] (Seconds (NewJob (clock_at 20000 9 0) 1))
     = Inr (job_named n k)"
  by (simp add: Do_def job_named_def NewJob_def Seconds_def)

text \<open>The example jobs are what the builder calls return.\<close>

lemma example_jobs_built:
  "Monday (NewJob (clock_at 20000 9 0) 1) = Inr every_monday"
  "Day_unit (NewJob (clock_at 20000 9 0) 1) = Inr every_day"
  "Do (clock_at 20000 9 0) (Func n 0) [] (Seconds (NewJob (clock_at 20000 9 0) 1))
     = Inr (job_every Seconds n)"
  "Do (clock_at 20000 9 0) (Func n 0) [] (Minutes (NewJob (clock_at 20000 9 0) 1))
     = Inr (job_every Minutes n)"
  "Do (clock_at 20000 9 0) (Func n 0) [] (Hours (NewJob (clock_at 20000 9 0) 1))
     = Inr (job_every Hours n)"
  by (simp_all add: Monday_def on_weekday_def singular_def Day_unit_def every_monday_def
      every_day_def Do_def job_every_def NewJob_def Seconds_def Minutes_def Hours_def)

lemma scheduleNextRun_frame:
  "jobFunc (scheduleNextRun c j) = jobFunc j"
  "funcs (scheduleNextRun c j) = funcs j"
  "fparams (scheduleNextRun c j) = fparams j"
  "unit (scheduleNextRun c j) = unit j"
  "interval (scheduleNextRun c j) = interval j"
  "startDay (scheduleNextRun c j) = startDay j"
  "atTime (scheduleNextRun c j) = atTime j"
  by (simp_all add: scheduleNextRun_def Let_def)


lemma nsec_Add: "nsec (Add t d) = nsec t + sint d"
  by (simp add: Add_def)

lemma scheduleNextRun_nextRun:
  "nextRun (scheduleNextRun c j) =
     Add (lastRun (scheduleNextRun c j)) (period (scheduleNextRun c j) * Second)"
  by (simp add: scheduleNextRun_def Let_def)

lemma scheduleNextRun_gap:
  "nsec (nextRun (scheduleNextRun c j)) =
     nsec (lastRun (scheduleNextRun c j)) + sint (period (scheduleNextRun c j) * Second)"
  by (simp add: scheduleNextRun_nextRun [of c j] nsec_Add)


lemma scheduleNextRun_period:
  "period (scheduleNextRun c j) =
     (if period j \<noteq> 0 then period j else unit_period (unit j) (interval j))"
  by (simp add: scheduleNextRun_def unit_period_def Let_def Unit_defs)





subsection \<open>64-bit products\<close>

lemma sint_word_of_int_64:
  assumes "- (2 ^ 63) \<le> x" and "x < 2 ^ 63"
  shows "sint (word_of_int x :: 64 word) = x"
proof -
  have "(x + 2 ^ 63) mod 2 ^ 64 = x + 2 ^ 63"
    using assms by (intro mod_pos_pos_trivial) simp_all
  then show ?thesis by (simp add: int_word_sint)
qed

lemma sint_mult_unsigned:
  fixes w :: "64 word"
  assumes "0 \<le> k" and "uint w * k < 2 ^ 63"
  shows "sint (w * word_of_int k) = uint w * k"
proof -
  have "w * word_of_int k = word_of_int (uint w * k)"
    by simp
  moreover have "- (2 ^ 63) \<le> uint w * k"
    using assms(1) by (smt (verit) mult_nonneg_nonneg uint_ge_0 zero_less_power)
  ultimately show ?thesis
    using assms(2) by (simp only: sint_word_of_int_64)
qed





lemma uint_times_Second:
  fixes p :: "64 word"
  assumes "uint p * 1000000000 < 2 ^ 63"
  shows "sint (p * Second) = uint p * 1000000000"
  using sint_mult_unsigned [of 1000000000 p] assms by (simp add: Second_def)

subsection \<open>Remove\<close>

lemma Remove_loop_absent:
  "\<forall>job \<in> set js. jobFunc job \<noteq> name \<Longrightarrow>
   Remove_loop name js k i = (if js = [] then i else k + length js - 1)"
  by (induction js arbitrary: k i) auto

text \<open>
  Claim C10: \<^verbatim>\<open>Remove\<close> on a scheduler whose job collection is empty is not a no-op. The loop
  does not run, \<^verbatim>\<open>i\<close> stays 0, and the slice expression \<^verbatim>\<open>s.jobs[1:]\<close> on a collection of
  length 0 panics, whatever the argument.
\<close>

theorem Remove_empty_panics:
  "Remove v (s\<lparr>jobs := []\<rparr>) = Inl SliceBoundsPanic"
  by (simp add: Remove_def)

text \<open>
  Claim C1: on a non-empty collection, \<^verbatim>\<open>Remove\<close> with a function whose name matches no job
  should leave the collection as it is. The code does not: the loop ends with \<^verbatim>\<open>i\<close> at the
  last index, and the job at that index, the last one, is removed.
\<close>

theorem Remove_absent_removes_last:
  assumes "jobs s \<noteq> []" and "\<forall>job \<in> set (jobs s). jobFunc job \<noteq> name"
  shows "Remove (Func name k) s = Inr (s\<lparr>jobs := butlast (jobs s)\<rparr>)"
proof -
  have i: "Remove_loop name (jobs s) 0 0 = length (jobs s) - 1"
    using assms by (simp add: Remove_loop_absent)
  have "take (length (jobs s) - 1) (jobs s) @ drop (length (jobs s) - 1 + 1) (jobs s)
          = butlast (jobs s)"
    using assms(1) by (simp add: butlast_conv_take)
  with i assms(1) show ?thesis
    by (simp add: Remove_def getFunctionName_def)
qed

theorem Remove_absent_witness:
  "jobs \<lparr>jobs = [job_named ''main.a'' 0, job_named ''main.b'' 0]\<rparr> \<noteq> []
   \<and> jobFunc (job_named ''main.a'' 0) \<noteq> ''main.c''
   \<and> jobFunc (job_named ''main.b'' 0) \<noteq> ''main.c''
   \<and> Remove (Func ''main.c'' 0) \<lparr>jobs = [job_named ''main.a'' 0, job_named ''main.b'' 0]\<rparr>
       = Inr \<lparr>jobs = [job_named ''main.a'' 0]\<rparr>"
  using Remove_absent_removes_last
          [of "\<lparr>jobs = [job_named ''main.a'' 0, job_named ''main.b'' 0]\<rparr>" "''main.c''" 0]
  by (simp add: job_named_def scheduleNextRun_frame)

subsection \<open>The cached period\<close>




subsection \<open>The fire-and-reschedule step\<close>

lemma job_named_simps:
  "funcs (job_named n k) = [n \<mapsto> Func n k]"
  "fparams (job_named n k) = [n \<mapsto> []]"
  "jobFunc (job_named n k) = n"
  "unit (job_named n k) = UnitSeconds"
  "interval (job_named n k) = 1"
  "period (job_named n k) = 1"
  "params_of (job_named n k) = []"
  by (simp_all add: job_named_def scheduleNextRun_frame scheduleNextRun_period params_of_def
      unit_period_def Unit_defs Seconds_def NewJob_def)





subsection \<open>The order of lastRun and nextRun\<close>

lemma formatTime_1030: "formatTime ''10:30'' = Inr (10, 30)"
  by (simp add: formatTime_def Atoi_def is_digit_def Let_def)

text \<open>
  Claim C8, as stated, after every one of \<^verbatim>\<open>At\<close>, \<^verbatim>\<open>Do\<close>, \<^verbatim>\<open>run\<close> and \<^verbatim>\<open>scheduleNextRun\<close> the
  job has \<^verbatim>\<open>nextRun\<close> at or after \<^verbatim>\<open>lastRun\<close>. It fails after \<^verbatim>\<open>At\<close>, which sets \<^verbatim>\<open>lastRun\<close> and
  leaves \<^verbatim>\<open>nextRun\<close> alone: on the new daily job, at noon, \<^verbatim>\<open>At("10:30")\<close> puts \<^verbatim>\<open>lastRun\<close> at
  10:30 of the day while \<^verbatim>\<open>nextRun\<close> is still the Unix epoch.
\<close>

theorem At_leaves_nextRun_behind:
  "At (clock_at 20000 12 0) ''10:30'' every_day = Inr (every_day\<lparr>lastRun := Date 20000 10 30 zone0\<rparr>)
   \<and> nsec (nextRun (every_day\<lparr>lastRun := Date 20000 10 30 zone0\<rparr>))
       < nsec (lastRun (every_day\<lparr>lastRun := Date 20000 10 30 zone0\<rparr>))"
  by (simp add: At_def formatTime_1030 every_day_def Days_def NewJob_def Unit_defs Let_def
      Now_def Day_def Date_def After_def clock_at_def zone0_def Unix0_def)

text \<open>
  Claim C8, amended: after \<^verbatim>\<open>scheduleNextRun\<close>, after \<^verbatim>\<open>Do\<close> and after a \<^verbatim>\<open>run\<close> that returns no
  error, \<^verbatim>\<open>nextRun\<close> is \<^verbatim>\<open>lastRun\<close> plus \<^verbatim>\<open>period * time.Second\<close>, so \<^verbatim>\<open>nextRun\<close> is at or after
  \<^verbatim>\<open>lastRun\<close> exactly when that 64-bit product is not negative, and always when the period
  times \<open>10^9\<close> is below \<open>2^63\<close>.
\<close>

theorem nextRun_after_lastRun:
  assumes "j' = scheduleNextRun c j \<or> Do c f ps j = Inr j' \<or> run c j = Inr (None, j')"
  shows "nsec (nextRun j') = nsec (lastRun j') + sint (period j' * Second)
       \<and> ((nsec (lastRun j') \<le> nsec (nextRun j')) = (0 \<le> sint (period j' * Second)))
       \<and> (uint (period j') * 1000000000 < 2 ^ 63 \<longrightarrow> nsec (lastRun j') \<le> nsec (nextRun j'))"
proof -
  have "\<exists>c' j0. j' = scheduleNextRun c' j0"
    using assms
    by (auto simp: Do_def run_def Let_def split: val.splits option.splits if_splits)
  then obtain c' j0 where j': "j' = scheduleNextRun c' j0" by blast
  have g: "nsec (nextRun j') = nsec (lastRun j') + sint (period j' * Second)"
    unfolding j' by (rule scheduleNextRun_gap)
  have "uint (period j') * 1000000000 < 2 ^ 63 \<longrightarrow> 0 \<le> sint (period j' * Second)"
    using uint_times_Second [of "period j'"] by simp
  with g show ?thesis by simp
qed

theorem nextRun_after_lastRun_witness:
  "uint (period (job_named ''main.task'' 0)) * 1000000000 < 2 ^ 63
   \<and> nsec (lastRun (job_named ''main.task'' 0)) \<le> nsec (nextRun (job_named ''main.task'' 0))
   \<and> nsec (nextRun (job_named ''main.task'' 0)) = nsec (lastRun (job_named ''main.task'' 0)) + 1000000000"
proof -
  have d: "job_named ''main.task'' 0 =
             scheduleNextRun (clock_at 20000 9 0) (Seconds (NewJob (clock_at 20000 9 0) 1))
      \<or> Do (clock_at 20000 9 0) (Func ''main.task'' 0) [] (Seconds (NewJob (clock_at 20000 9 0) 1))
          = Inr (job_named ''main.task'' 0)
      \<or> run (clock_at 20000 9 0) (Seconds (NewJob (clock_at 20000 9 0) 1))
          = Inr (None, job_named ''main.task'' 0)"
    by (simp add: job_named_Do)
  have p: "uint (period (job_named ''main.task'' 0)) * 1000000000 < 2 ^ 63"
    by (simp add: job_named_simps)
  have "sint (period (job_named ''main.task'' 0) * Second) = 1000000000"
    by (simp add: job_named_simps Second_def)
  with nextRun_after_lastRun [OF d] p show ?thesis by simp
qed

subsection \<open>Anchoring a daily job to a clock time\<close>

lemma Day_Date:
  assumes "0 \<le> h" "h \<le> 23" "0 \<le> m" "m \<le> 59"
  shows "Day (Date d h m l) = d"
proof -
  have "(d * 86400 + h * 3600 + m * 60) div 86400 = d"
    using assms by (simp add: div_pos_pos_trivial)
  moreover have "(d * 86400 + h * 3600 + m * 60 - zoffset l) * 1000000000 + zoffset l * 1000000000
      = (d * 86400 + h * 3600 + m * 60) * 1000000000"
    by (simp add: algebra_simps)
  ultimately show ?thesis
    by (simp add: Day_def Date_def)
qed

lemma formatTime_range:
  assumes "formatTime t = Inr (h, m)"
  shows "0 \<le> h \<and> h \<le> 23 \<and> 0 \<le> m \<and> m \<le> 59"
  using assms
  by (auto simp: formatTime_def Let_def split: if_splits sum.splits)

lemma At_days:
  assumes "unit j = UnitDays" and "formatTime t = Inr (h, m)"
  shows "At c t j =
     Inr (j\<lparr>lastRun := (if After (Now c) (Date (Day (Now c)) h m (loc c))
                          then Date (Day (Now c)) h m (loc c)
                          else Date (Day (Now c) - 1) h m (loc c))\<rparr>)"
  using assms by (simp add: At_def Let_def)

lemma every_day_simps:
  "unit every_day = UnitDays" "interval every_day = 1" "period every_day = 0"
  by (simp_all add: every_day_def Days_def NewJob_def)

lemma clock_at_simps:
  "Day (Now (clock_at d 9 0)) = d"
  "Day (Now (clock_at d 12 0)) = d"
  "loc (clock_at d h m) = zone0"
  "Local (clock_at d h m) = zone0"
  by (simp_all add: clock_at_def Now_def Day_def zone0_def div_pos_pos_trivial)

text \<open>
  Claim C2, as stated, \<^verbatim>\<open>At\<close> on a daily job sets \<^verbatim>\<open>lastRun\<close> to today at the clock time when
  that time is still to come, and to yesterday at the clock time when it has passed. The
  code does the opposite: at 09:00, \<^verbatim>\<open>At("10:30")\<close> sets \<^verbatim>\<open>lastRun\<close> to yesterday at 10:30.
\<close>

theorem At_future_time_gives_yesterday:
  "Day (Now (clock_at 20000 9 0)) = 20000
   \<and> After (Date 20000 10 30 zone0) (Now (clock_at 20000 9 0))
   \<and> At (clock_at 20000 9 0) ''10:30'' every_day = Inr (every_day\<lparr>lastRun := Date 19999 10 30 zone0\<rparr>)
   \<and> lastRun (every_day\<lparr>lastRun := Date 19999 10 30 zone0\<rparr>) \<noteq> Date 20000 10 30 zone0"
proof -
  have a: "After (Date 20000 10 30 zone0) (Now (clock_at 20000 9 0))"
    by (simp add: After_def Now_def Date_def clock_at_def zone0_def)
  then have b: "\<not> After (Now (clock_at 20000 9 0)) (Date 20000 10 30 zone0)"
    by (simp add: After_def)
  have c: "At (clock_at 20000 9 0) ''10:30'' every_day = Inr (every_day\<lparr>lastRun := Date 19999 10 30 zone0\<rparr>)"
    using b by (simp add: At_days [OF every_day_simps(1) formatTime_1030] clock_at_simps)
  have d: "Date 19999 10 30 zone0 \<noteq> Date 20000 10 30 zone0"
    by (simp add: Date_def)
  from a c d show ?thesis by (simp add: clock_at_simps)
qed

text \<open>
  Claim C2, amended: \<^verbatim>\<open>At\<close> with a valid clock time on a daily job sets \<^verbatim>\<open>lastRun\<close> to today at
  that time when now is after it (the time has passed today), and to yesterday at that time
  otherwise (the time is still to come, or is now). The two values fall on the civil day of
  now and on the day before.
\<close>

theorem At_days_anchor:
  assumes "unit j = UnitDays" and "formatTime t = Inr (h, m)"
  shows "(After (Now c) (Date (Day (Now c)) h m (loc c))
            \<longrightarrow> At c t j = Inr (j\<lparr>lastRun := Date (Day (Now c)) h m (loc c)\<rparr>))
       \<and> (\<not> After (Now c) (Date (Day (Now c)) h m (loc c))
            \<longrightarrow> At c t j = Inr (j\<lparr>lastRun := Date (Day (Now c) - 1) h m (loc c)\<rparr>))
       \<and> Day (Date (Day (Now c)) h m (loc c)) = Day (Now c)
       \<and> Day (Date (Day (Now c) - 1) h m (loc c)) = Day (Now c) - 1"
  using formatTime_range [OF assms(2)] by (simp add: At_days [OF assms] Day_Date)

theorem At_days_anchor_witness:
  "unit every_day = UnitDays \<and> formatTime ''10:30'' = Inr (10, 30)
   \<and> After (Now (clock_at 20000 12 0)) (Date 20000 10 30 zone0)
   \<and> At (clock_at 20000 12 0) ''10:30'' every_day = Inr (every_day\<lparr>lastRun := Date 20000 10 30 zone0\<rparr>)
   \<and> \<not> After (Now (clock_at 20000 9 0)) (Date 20000 10 30 zone0)
   \<and> At (clock_at 20000 9 0) ''10:30'' every_day = Inr (every_day\<lparr>lastRun := Date 19999 10 30 zone0\<rparr>)"
proof -
  have a: "After (Now (clock_at 20000 12 0)) (Date 20000 10 30 zone0)"
    and b: "\<not> After (Now (clock_at 20000 9 0)) (Date 20000 10 30 zone0)"
    by (simp_all add: After_def Now_def Date_def clock_at_def zone0_def)
  from At_days_anchor [OF every_day_simps(1) formatTime_1030, of "clock_at 20000 12 0"]
       At_days_anchor [OF every_day_simps(1) formatTime_1030, of "clock_at 20000 9 0"] a b
  show ?thesis
    by (simp add: clock_at_simps every_day_simps formatTime_1030)
qed





subsection \<open>The jobs that are due\<close>

lemma shouldRun_iff: "shouldRun c j = (nsec (nextRun j) < now c)"
  by (simp add: shouldRun_def After_def Now_def)

lemma Less_iff: "Less a b = (nsec (nextRun a) < nsec (nextRun b))"
  by (simp add: Less_def After_def)

lemma runnable_loop_takeWhile:
  "runnable_loop c acc js = acc @ takeWhile (shouldRun c) js"
  by (induction js arbitrary: acc) simp_all

lemma takeWhile_due_sorted:
  assumes "sorted_wrt (\<lambda>a b. \<not> Less b a) js"
  shows "takeWhile (shouldRun c) js = filter (shouldRun c) js"
  using assms
proof (induction js)
  case Nil
  then show ?case by simp
next
  case (Cons x xs)
  show ?case
  proof (cases "shouldRun c x")
    case True
    with Cons show ?thesis by simp
  next
    case False
    have "\<forall>y \<in> set xs. \<not> shouldRun c y"
      using Cons.prems False by (auto simp: shouldRun_iff Less_iff)
    then have "filter (shouldRun c) xs = []"
      by (simp add: filter_empty_conv)
    with False show ?thesis by simp
  qed
qed

text \<open>
  Claim C6: \<^verbatim>\<open>getRunnableJobs\<close> sorts the collection by \<^verbatim>\<open>nextRun\<close> and returns exactly the jobs
  whose \<^verbatim>\<open>nextRun\<close> is strictly before now, in ascending order of \<^verbatim>\<open>nextRun\<close>; they are the
  prefix of the sorted collection that the scan takes up to the first job not yet due.
  This holds for every result \<^verbatim>\<open>sort.Sort\<close> may give: the same jobs, none before one with an
  earlier \<^verbatim>\<open>nextRun\<close>.
\<close>

theorem getRunnableJobs_due_prefix:
  assumes "sorts (jobs s) (sort_Sort (jobs s))" and "getRunnableJobs sort_Sort c s = (r, s')"
  shows "mset r = filter_mset (\<lambda>j. nsec (nextRun j) < now c) (mset (jobs s))
       \<and> sorted_wrt (\<lambda>a b. nsec (nextRun a) \<le> nsec (nextRun b)) r
       \<and> prefix r (jobs s')
       \<and> r = takeWhile (\<lambda>j. nsec (nextRun j) < now c) (jobs s')
       \<and> r = filter (\<lambda>j. nsec (nextRun j) < now c) (jobs s')
       \<and> sorts (jobs s) (jobs s')"
proof -
  have s': "jobs s' = sort_Sort (jobs s)" and r: "r = takeWhile (shouldRun c) (jobs s')"
    using assms(2) by (auto simp: getRunnableJobs_def Let_def runnable_loop_takeWhile)
  have srt: "sorted_wrt (\<lambda>a b. \<not> Less b a) (jobs s')" and ms: "mset (jobs s') = mset (jobs s)"
    using assms(1) by (simp_all add: sorts_def s')
  have due: "shouldRun c = (\<lambda>j. nsec (nextRun j) < now c)"
    by (rule ext) (rule shouldRun_iff)
  have f: "r = filter (shouldRun c) (jobs s')"
    using r takeWhile_due_sorted [OF srt] by simp
  have 1: "mset r = filter_mset (\<lambda>j. nsec (nextRun j) < now c) (mset (jobs s))"
  proof -
    have "mset r = filter_mset (shouldRun c) (mset (jobs s'))"
      unfolding f by simp
    then show ?thesis
      by (simp only: ms due)
  qed
  have asc: "sorted_wrt (\<lambda>a b. nsec (nextRun a) \<le> nsec (nextRun b)) (jobs s')"
    using srt by (simp add: Less_iff not_less)
  have 2: "sorted_wrt (\<lambda>a b. nsec (nextRun a) \<le> nsec (nextRun b)) r"
    unfolding f by (rule sorted_wrt_filter [OF asc])
  have 3: "prefix r (jobs s')"
    unfolding r by (metis prefixI takeWhile_dropWhile_id)
  from 1 2 3 r f assms(1) show ?thesis
    by (simp add: due s')
qed

lemma job_every_nextRun:
  "nsec (nextRun (job_every Seconds n)) = now (clock_at 20000 9 0) + 1000000000"
  "nsec (nextRun (job_every Minutes n)) = now (clock_at 20000 9 0) + 60000000000"
  "nsec (nextRun (job_every Hours n)) = now (clock_at 20000 9 0) + 3600000000000"
  by (simp_all add: job_every_def scheduleNextRun_def Let_def NewJob_def Seconds_def Minutes_def
      Hours_def Unit_defs Add_def Second_def Now_def)

theorem getRunnableJobs_witness:
  "sorts [job_every Hours ''main.c'', job_every Seconds ''main.a'', job_every Minutes ''main.b'']
     (by_nextRun [job_every Hours ''main.c'', job_every Seconds ''main.a'', job_every Minutes ''main.b''])
   \<and> getRunnableJobs by_nextRun (clock_at 20000 9 30)
        \<lparr>jobs = [job_every Hours ''main.c'', job_every Seconds ''main.a'', job_every Minutes ''main.b'']\<rparr>
      = ([job_every Seconds ''main.a'', job_every Minutes ''main.b''],
         \<lparr>jobs = [job_every Seconds ''main.a'', job_every Minutes ''main.b'', job_every Hours ''main.c'']\<rparr>)"
proof -
  let ?h = "job_every Hours ''main.c''" and ?s = "job_every Seconds ''main.a''"
    and ?m = "job_every Minutes ''main.b''"
  have srt: "by_nextRun [?h, ?s, ?m] = [?s, ?m, ?h]"
    by (simp add: by_nextRun_def job_every_nextRun)
  have h1: "sorts (jobs \<lparr>jobs = [?h, ?s, ?m]\<rparr>) (by_nextRun (jobs \<lparr>jobs = [?h, ?s, ?m]\<rparr>))"
    by (simp add: srt sorts_def Less_iff job_every_nextRun)
  obtain r s' where h2: "getRunnableJobs by_nextRun (clock_at 20000 9 30) \<lparr>jobs = [?h, ?s, ?m]\<rparr> = (r, s')"
    by (cases "getRunnableJobs by_nextRun (clock_at 20000 9 30) \<lparr>jobs = [?h, ?s, ?m]\<rparr>") blast
  have s': "s' = \<lparr>jobs = [?s, ?m, ?h]\<rparr>"
    using h2 by (auto simp: getRunnableJobs_def Let_def srt)
  from getRunnableJobs_due_prefix [OF h1 h2]
  have "r = filter (\<lambda>j. nsec (nextRun j) < now (clock_at 20000 9 30)) (jobs s')"
    by blast
  then have "r = [?s, ?m]"
    by (simp add: s' job_every_nextRun clock_at_def)
  with h1 h2 s' show ?thesis by simp
qed

subsection \<open>A job that never ran\<close>

lemma weekday_back_mod':
  fixes a b :: int
  assumes "0 \<le> a" "a \<le> 6" "0 \<le> b" "b \<le> 6"
  shows "(if a - b < 0 then 7 + (a - b) else a - b) = (a - b) mod 7"
proof (cases "a - b < 0")
  case True
  then have "(a - b) mod 7 = (a - b + 7) mod 7" by simp
  also have "\<dots> = a - b + 7" using True assms by (intro mod_pos_pos_trivial) simp_all
  finally show ?thesis using True by simp
next
  case False
  then have "(a - b) mod 7 = a - b" using assms by (intro mod_pos_pos_trivial) simp_all
  with False show ?thesis by simp
qed

lemma same_weekday_le:
  fixes d D T :: int
  assumes "(d + 4) mod 7 = (D + 4) mod 7" and "d \<le> T" and "T - D \<le> 6"
  shows "d \<le> D"
proof (rule ccontr)
  assume "\<not> d \<le> D"
  with assms(2,3) have k: "0 < d - D" "d - D < 7" by simp_all
  from assms(1) have "7 dvd (d + 4) - (D + 4)"
    by (simp only: mod_eq_dvd_iff)
  then have "7 dvd d - D" by simp
  with k show False
    by (simp add: zdvd_not_zless)
qed

lemma most_recent_weekday:
  fixes T sd d :: int
  assumes "0 \<le> sd" "sd \<le> 6"
  shows "(T - ((T + 4) mod 7 - sd) mod 7 + 4) mod 7 = sd"
    and "d \<le> T \<Longrightarrow> (d + 4) mod 7 = sd \<Longrightarrow> d \<le> T - ((T + 4) mod 7 - sd) mod 7"
proof -
  let ?i = "((T + 4) mod 7 - sd) mod 7"
  have "(T - ?i + 4) mod 7 = ((T + 4) - ?i) mod 7"
    by (simp add: algebra_simps)
  also have "\<dots> = ((T + 4) - ((T + 4) mod 7 - sd)) mod 7"
    by (rule mod_diff_right_eq)
  also have "\<dots> = (7 * ((T + 4) div 7) + sd) mod 7"
    by (simp add: algebra_simps flip: minus_mod_eq_mult_div)
  also have "\<dots> = sd"
    using assms by simp
  finally show a: "(T - ?i + 4) mod 7 = sd" .
  have i: "T - (T - ?i) \<le> 6"
    by simp
  assume "d \<le> T" and "(d + 4) mod 7 = sd"
  with a have "(d + 4) mod 7 = (T - ?i + 4) mod 7" "d \<le> T"
    by simp_all
  then show "d \<le> T - ?i"
    using i by (rule same_weekday_le)
qed

lemma weekday_back_mod:
  assumes "0 \<le> a" "a \<le> 6" "0 \<le> b" "b \<le> 6"
  shows "weekday_back a b = (a - b) mod 7"
  using weekday_back_mod' [OF assms] by (simp add: weekday_back_def Let_def)

lemma Weekday_range: "0 \<le> Weekday t \<and> Weekday t \<le> 6"
  by (simp add: Weekday_def)

lemma Weekday_Date: "Weekday (Date d 0 0 l) = (d + 4) mod 7"
  by (simp add: Weekday_def Day_Date)

text \<open>
  Claim C7: when \<^verbatim>\<open>lastRun\<close> is still \<^verbatim>\<open>time.Unix(0, 0)\<close>, \<^verbatim>\<open>scheduleNextRun\<close> sets the \<^verbatim>\<open>lastRun\<close>
  of a weekly job to midnight of the day that lies (today's weekday - start day) mod 7 days
  before today, where a negative difference has 7 added; that day has the start day as its
  weekday and is the latest such day up to today. For any other unit it sets \<^verbatim>\<open>lastRun\<close>
  to now.
\<close>

theorem scheduleNextRun_never_run:
  assumes "lastRun j = Unix0 c"
  shows "(unit j = UnitWeeks \<and> 0 \<le> startDay j \<and> startDay j \<le> 6 \<longrightarrow>
            lastRun (scheduleNextRun c j)
              = Date (Day (Now c) - (Weekday (Now c) - startDay j) mod 7) 0 0 (loc c)
            \<and> (Weekday (Now c) - startDay j) mod 7
                = (if Weekday (Now c) - startDay j < 0 then Weekday (Now c) - startDay j + 7
                   else Weekday (Now c) - startDay j)
            \<and> Weekday (lastRun (scheduleNextRun c j)) = startDay j
            \<and> Day (lastRun (scheduleNextRun c j)) \<le> Day (Now c)
            \<and> (\<forall>d. d \<le> Day (Now c) \<and> (d + 4) mod 7 = startDay j
                  \<longrightarrow> d \<le> Day (lastRun (scheduleNextRun c j))))
       \<and> (unit j \<noteq> UnitWeeks \<longrightarrow> lastRun (scheduleNextRun c j) = Now c)"
proof (intro conjI impI)
  assume "unit j \<noteq> UnitWeeks"
  with assms show "lastRun (scheduleNextRun c j) = Now c"
    by (simp add: scheduleNextRun_def Let_def)
next
  assume w: "unit j = UnitWeeks \<and> 0 \<le> startDay j \<and> startDay j \<le> 6"
  let ?i = "(Weekday (Now c) - startDay j) mod 7"
  have i: "weekday_back (Weekday (Now c)) (startDay j) = ?i"
    using w Weekday_range [of "Now c"] by (simp add: weekday_back_mod)
  show l: "lastRun (scheduleNextRun c j) = Date (Day (Now c) - ?i) 0 0 (loc c)"
    using assms w by (simp add: scheduleNextRun_def Let_def i)
  show "?i = (if Weekday (Now c) - startDay j < 0 then Weekday (Now c) - startDay j + 7
              else Weekday (Now c) - startDay j)"
    using i by (simp add: weekday_back_def Let_def split: if_splits)
  have d: "Day (lastRun (scheduleNextRun c j)) = Day (Now c) - ?i"
    by (simp add: l Day_Date)
  show "Weekday (lastRun (scheduleNextRun c j)) = startDay j"
    using w most_recent_weekday(1) [of "startDay j" "Day (Now c)"]
    by (simp add: l Weekday_Date) (simp add: Weekday_def)
  show "Day (lastRun (scheduleNextRun c j)) \<le> Day (Now c)"
    by (simp add: d)
  show "\<forall>d. d \<le> Day (Now c) \<and> (d + 4) mod 7 = startDay j
          \<longrightarrow> d \<le> Day (lastRun (scheduleNextRun c j))"
    using w most_recent_weekday(2) [of "startDay j" _ "Day (Now c)"]
    by (simp add: d Weekday_def)
qed

theorem scheduleNextRun_never_run_witness:
  "lastRun every_monday = Unix0 (clock_at 20000 9 0)
   \<and> unit every_monday = UnitWeeks \<and> 0 \<le> startDay every_monday \<and> startDay every_monday \<le> 6
   \<and> Weekday (Now (clock_at 20000 9 0)) = 5
   \<and> lastRun (scheduleNextRun (clock_at 20000 9 0) every_monday) = Date 19996 0 0 zone0
   \<and> Weekday (Date 19996 0 0 zone0) = 1
   \<and> unit every_5_minutes \<noteq> UnitWeeks
   \<and> lastRun every_5_minutes = Unix0 (clock_at 20000 9 0)
   \<and> lastRun (scheduleNextRun (clock_at 20000 9 0) every_5_minutes) = Now (clock_at 20000 9 0)"
proof -
  have h: "lastRun every_monday = Unix0 (clock_at 20000 9 0)"
    and u: "unit every_monday = UnitWeeks" "startDay every_monday = 1"
    by (simp_all add: every_monday_def Weeks_def NewJob_def)
  have h': "lastRun every_5_minutes = Unix0 (clock_at 20000 9 0)"
    and u': "unit every_5_minutes \<noteq> UnitWeeks"
    by (simp_all add: every_5_minutes_def Minutes_def NewJob_def Unit_defs)
  have wd: "Weekday (Now (clock_at 20000 9 0)) = 5"
    by (simp add: Weekday_def clock_at_simps)
  from scheduleNextRun_never_run [OF h] u wd
  have 1: "lastRun (scheduleNextRun (clock_at 20000 9 0) every_monday) = Date 19996 0 0 zone0"
    by (simp add: clock_at_simps)
  have 2: "Weekday (Date 19996 0 0 zone0) = 1"
    by (simp add: Weekday_Date)
  from scheduleNextRun_never_run [OF h'] u'
  have 3: "lastRun (scheduleNextRun (clock_at 20000 9 0) every_5_minutes) = Now (clock_at 20000 9 0)"
    by simp
  from h u h' u' wd 1 2 3 show ?thesis by simp
qed

end
